theory Spec2Isabelle
  imports Complex_Main "HOL-Library.Sublist"
begin

section \<open>Python values shared by the modules\<close>

text \<open>
  The exceptions the modelled code can meet. \<open>CancelledError\<close> (raised in a task that
  is cancelled while it awaits), \<open>GeneratorExit\<close> (thrown into a generator that is
  closed) and \<open>KeyboardInterrupt\<close> derive from \<open>BaseException\<close> only; every other one
  is a subclass of \<open>Exception\<close>, which is what an \<open>except Exception\<close> clause catches.
\<close>

datatype py_exception =
    ConnectError
  | TimeoutException
  | HTTPStatusError nat
  | JSONDecodeError
  | KeyError
  | IndexError
  | TypeError
  | AttributeError
  | ValueError
  | ZeroDivisionError
  | OverflowError
  | OSError
  | RuntimeError
  | CancelledError
  | GeneratorExit
  | KeyboardInterrupt

definition is_Exception :: "py_exception \<Rightarrow> bool" where
  "is_Exception e = (e \<noteq> CancelledError \<and> e \<noteq> GeneratorExit \<and> e \<noteq> KeyboardInterrupt)"

text \<open>
  A computation that may raise returns \<open>Inl\<close> of the exception; \<open>py_bind\<close> runs the
  rest of the statement sequence on a returned value and lets an exception pass.
\<close>

definition py_bind ::
  "py_exception + 'a \<Rightarrow> ('a \<Rightarrow> py_exception + 'b) \<Rightarrow> py_exception + 'b" where
  "py_bind r f = (case r of Inl e \<Rightarrow> Inl e | Inr v \<Rightarrow> f v)"

text \<open>
  How a call or an \<open>await\<close> of the environment ends: it returns a value or raises.
\<close>

datatype 'a outcome = Returned 'a | Raised py_exception

definition await :: "'a outcome \<Rightarrow> py_exception + 'a" where
  "await r = (case r of Returned v \<Rightarrow> Inr v | Raised e \<Rightarrow> Inl e)"

text \<open>\<open>d.get(k, default)\<close> on a dictionary.\<close>

definition dict_get :: "('k \<rightharpoonup> 'v) \<Rightarrow> 'k \<Rightarrow> 'v \<Rightarrow> 'v" where
  "dict_get d k dflt = (case d k of None \<Rightarrow> dflt | Some v \<Rightarrow> v)"


section \<open>Python numbers\<close>

text \<open>
  A Python \<open>float\<close> is an IEEE 754 binary64 number: a finite value, an infinity or a
  NaN. The finite values are carried as reals; every operation rounds its exact result
  to the nearest double, ties to even, so the results of the operations are doubles.
  The sign of a zero is not represented: no modelled function divides by a zero or
  prints one, and \<open>-0.0 == 0.0\<close>.
\<close>

datatype pyfloat = Fin real | PosInf | NegInf | NaN

text \<open>Rounding a real to the nearest integer, a tie to the even neighbour.\<close>

definition round_half_even :: "real \<Rightarrow> int" where
  "round_half_even r =
     (let f = \<lfloor>r\<rfloor>; d = r - real_of_int f
      in if d < 1 / 2 then f
         else if 1 / 2 < d then f + 1
         else if even f then f else f + 1)"

text \<open>
  The binade of \<open>x\<close>: the exponent \<open>e\<close> with \<open>2\<^sup>e \<le> |x| < 2\<^sup>e\<^sup>+\<^sup>1\<close>, searched upwards from
  the exponent \<open>-1022\<close> of the subnormal numbers and stopped at \<open>1024\<close>, beyond the
  largest double.
\<close>

primrec binade_from :: "real \<Rightarrow> int \<Rightarrow> nat \<Rightarrow> int" where
  "binade_from x e 0 = e"
| "binade_from x e (Suc n) = (if x < 2 powi (e + 1) then e else binade_from x (e + 1) n)"

definition binade :: "real \<Rightarrow> int" where
  "binade x = binade_from \<bar>x\<bar> (- 1022) 2046"

text \<open>
  The double nearest to a real: the real is rounded to a multiple of the spacing
  \<open>2\<^sup>e\<^sup>-\<^sup>5\<^sup>2\<close> of the doubles of its binade; a result of magnitude \<open>2\<^sup>1\<^sup>0\<^sup>2\<^sup>4\<close> is an
  overflow.
\<close>

definition to_double :: "real \<Rightarrow> pyfloat" where
  "to_double x =
     (let q = 2 powi (binade x - 52);
          y = real_of_int (round_half_even (x / q)) * q
      in if 2 ^ 1024 \<le> y then PosInf
         else if y \<le> - (2 ^ 1024) then NegInf
         else Fin y)"

text \<open>A float literal of the source, such as \<open>1e-6\<close> or \<open>0.9\<close>: the double nearest to it.\<close>

definition float_literal :: "real \<Rightarrow> pyfloat" where
  "float_literal r = to_double r"

text \<open>
  A number of the source is an \<open>int\<close> (unbounded) or a \<open>float\<close>; the dictionaries of
  assumptions and rates hold both.
\<close>

datatype pynum = PyInt int | PyFloat pyfloat

text \<open>
  The conversion of an \<open>int\<close> to a \<open>float\<close>, explicit in \<open>float(x)\<close> and implicit when an
  \<open>int\<close> meets a \<open>float\<close> in an operation: correctly rounded, and an \<open>OverflowError\<close>
  when the integer is beyond the doubles.
\<close>

definition int_to_float :: "int \<Rightarrow> py_exception + pyfloat" where
  "int_to_float i =
     (case to_double (real_of_int i) of
        Fin y \<Rightarrow> Inr (Fin y)
      | _ \<Rightarrow> Inl OverflowError)"

fun as_float :: "pynum \<Rightarrow> py_exception + pyfloat" where
  "as_float (PyInt i) = int_to_float i"
| "as_float (PyFloat x) = Inr x"

text \<open>The operations on floats; an overflow of these gives an infinity, not an exception.\<close>

fun float_neg :: "pyfloat \<Rightarrow> pyfloat" where
  "float_neg (Fin a) = Fin (- a)"
| "float_neg PosInf = NegInf"
| "float_neg NegInf = PosInf"
| "float_neg NaN = NaN"

definition float_sign :: "pyfloat \<Rightarrow> int" where
  "float_sign x =
     (case x of
        Fin a \<Rightarrow> (if 0 < a then 1 else if a < 0 then - 1 else 0)
      | PosInf \<Rightarrow> 1
      | NegInf \<Rightarrow> - 1
      | NaN \<Rightarrow> 0)"

definition float_mul :: "pyfloat \<Rightarrow> pyfloat \<Rightarrow> pyfloat" where
  "float_mul x y =
     (case (x, y) of
        (Fin a, Fin b) \<Rightarrow> to_double (a * b)
      | _ \<Rightarrow> (if float_sign x = 0 \<or> float_sign y = 0 then NaN
              else if float_sign x = float_sign y then PosInf else NegInf))"

definition float_add :: "pyfloat \<Rightarrow> pyfloat \<Rightarrow> pyfloat" where
  "float_add x y =
     (case (x, y) of
        (Fin a, Fin b) \<Rightarrow> to_double (a + b)
      | (Fin a, _) \<Rightarrow> y
      | (_, Fin b) \<Rightarrow> x
      | _ \<Rightarrow> (if x = y then x else NaN))"

text \<open>The quotient of two floats, the divisor not zero.\<close>

definition float_div :: "pyfloat \<Rightarrow> pyfloat \<Rightarrow> pyfloat" where
  "float_div x y =
     (case (x, y) of
        (Fin a, Fin b) \<Rightarrow> to_double (a / b)
      | (Fin a, NaN) \<Rightarrow> NaN
      | (Fin a, _) \<Rightarrow> Fin 0
      | (NaN, _) \<Rightarrow> NaN
      | (_, Fin b) \<Rightarrow> (if 0 < b then x else float_neg x)
      | _ \<Rightarrow> NaN)"

definition float_truediv :: "pyfloat \<Rightarrow> pyfloat \<Rightarrow> py_exception + pyfloat" where
  "float_truediv x y = (if y = Fin 0 then Inl ZeroDivisionError else Inr (float_div x y))"

text \<open>
  \<open>i / j\<close> on two \<open>int\<close>s: the correctly rounded quotient, and an \<open>OverflowError\<close> when
  it is beyond the doubles.
\<close>

definition int_truediv :: "int \<Rightarrow> int \<Rightarrow> py_exception + pyfloat" where
  "int_truediv i j =
     (if j = 0 then Inl ZeroDivisionError
      else (case to_double (real_of_int i / real_of_int j) of
              Fin y \<Rightarrow> Inr (Fin y)
            | _ \<Rightarrow> Inl OverflowError))"

text \<open>\<open>a / b\<close>, \<open>a * b\<close> and \<open>a + b\<close> on numbers.\<close>

fun py_truediv :: "pynum \<Rightarrow> pynum \<Rightarrow> py_exception + pyfloat" where
  "py_truediv (PyInt i) (PyInt j) = int_truediv i j"
| "py_truediv a b =
     py_bind (as_float a) (\<lambda>x. py_bind (as_float b) (\<lambda>y. float_truediv x y))"

fun py_mul :: "pynum \<Rightarrow> pynum \<Rightarrow> py_exception + pynum" where
  "py_mul (PyInt i) (PyInt j) = Inr (PyInt (i * j))"
| "py_mul a b =
     py_bind (as_float a) (\<lambda>x. py_bind (as_float b) (\<lambda>y. Inr (PyFloat (float_mul x y))))"

fun py_add :: "pynum \<Rightarrow> pynum \<Rightarrow> py_exception + pynum" where
  "py_add (PyInt i) (PyInt j) = Inr (PyInt (i + j))"
| "py_add a b =
     py_bind (as_float a) (\<lambda>x. py_bind (as_float b) (\<lambda>y. Inr (PyFloat (float_add x y))))"


fun exact_value :: "pynum \<Rightarrow> pyfloat" where
  "exact_value (PyInt i) = Fin (real_of_int i)"
| "exact_value (PyFloat x) = x"



text \<open>\<open>a == 0.0\<close>, which is also the falsity of a number in \<open>a or 0.0\<close>.\<close>

definition is_zero :: "pynum \<Rightarrow> bool" where
  "is_zero a = (exact_value a = Fin 0)"


fun py_int :: "pynum \<Rightarrow> py_exception + int" where
  "py_int (PyInt i) = Inr i"
| "py_int (PyFloat (Fin a)) = Inr (if 0 \<le> a then \<lfloor>a\<rfloor> else \<lceil>a\<rceil>)"
| "py_int (PyFloat NaN) = Inl ValueError"
| "py_int (PyFloat x) = Inl OverflowError"


section \<open>config.py\<close>


definition CHAIRMAN_MODEL :: string where
  "CHAIRMAN_MODEL = ''anthropic/claude-sonnet-4.5''"

text \<open>
  A pricing table maps a model identifier to its rate dictionary; a rate may be present
  and \<open>None\<close>, which is the inner \<open>option\<close>. Rates that are neither numbers nor \<open>None\<close>
  are not represented.
\<close>

type_synonym rates = "string \<rightharpoonup> pynum option"
type_synonym pricing_table = "string \<rightharpoonup> rates"

definition model_rates :: "real \<Rightarrow> real \<Rightarrow> rates" where
  "model_rates i out =
     map_of [(''input_per_million'', Some (PyFloat (float_literal i))),
             (''output_per_million'', Some (PyFloat (float_literal out)))]"

definition MODEL_PRICING :: pricing_table where
  "MODEL_PRICING = map_of
     [(''openai/gpt-5.1'', model_rates (125 / 100) 10),
      (''google/gemini-3-pro-preview'', model_rates 2 12),
      (''deepseek/deepseek-v3.2'', model_rates (25 / 100) (38 / 100)),
      (''x-ai/grok-4'', model_rates 3 15),
      (''anthropic/claude-sonnet-4.5'', model_rates 3 15)]"


section \<open>pricing.py\<close>


record model_cost =
  model :: string
  input_tokens :: pynum
  output_tokens :: pynum
  input_rate_per_million :: pyfloat
  output_rate_per_million :: pyfloat
  cost_input :: pyfloat
  cost_output :: pyfloat
  cost_total :: pyfloat
  pricing_missing :: bool

text \<open>
  \<open>float(model_pricing.get(key, 0.0) or 0.0)\<close>: an absent, \<open>None\<close> or zero rate is
  \<open>0.0\<close>; any other rate is converted to a \<open>float\<close>.
\<close>

definition rate_of :: "rates \<Rightarrow> string \<Rightarrow> py_exception + pyfloat" where
  "rate_of model_pricing key =
     (case dict_get model_pricing key (Some (PyFloat (Fin 0))) of
        None \<Rightarrow> Inr (Fin 0)
      | Some v \<Rightarrow> (if is_zero v then Inr (Fin 0) else as_float v))"

text \<open>
  \<open>estimate_model_cost\<close>. \<open>pricing.get(model_id, {}) if pricing else {}\<close>: a pricing
  table that is \<open>None\<close> or empty has no entry for any model, which the empty map stands
  for. The statements run in the order of the source, so the first exception is the one
  raised.
\<close>

definition estimate_model_cost ::
  "string \<Rightarrow> pynum \<Rightarrow> pynum \<Rightarrow> pricing_table \<Rightarrow> py_exception + model_cost" where
  "estimate_model_cost model_id input_toks output_toks pricing =
     (let model_pricing = dict_get pricing model_id Map.empty
      in py_bind (rate_of model_pricing ''input_per_million'') (\<lambda>input_rate.
         py_bind (rate_of model_pricing ''output_per_million'') (\<lambda>output_rate.
         py_bind (py_truediv input_toks (PyInt 1000000)) (\<lambda>in_millions.
         py_bind (py_truediv output_toks (PyInt 1000000)) (\<lambda>out_millions.
           (let c_in = float_mul in_millions input_rate;
                c_out = float_mul out_millions output_rate
            in Inr \<lparr> model = model_id,
                     input_tokens = input_toks,
                     output_tokens = output_toks,
                     input_rate_per_million = input_rate,
                     output_rate_per_million = output_rate,
                     cost_input = c_in,
                     cost_output = c_out,
                     cost_total = float_add c_in c_out,
                     pricing_missing =
                       (input_rate = Fin 0 \<and> output_rate = Fin 0) \<rparr>))))))"

text \<open>A rate that is absent from the rate dictionary, \<open>None\<close> or zero.\<close>

definition rate_unset :: "rates \<Rightarrow> string \<Rightarrow> bool" where
  "rate_unset r k =
     (r k = None \<or> r k = Some None \<or> r k = Some (Some (PyInt 0)) \<or>
      r k = Some (Some (PyFloat (Fin 0))))"


section \<open>openrouter.py\<close>

text \<open>
  The value \<open>response.json()\<close> returns: \<open>None\<close>, a \<open>bool\<close>, a number, a \<open>str\<close>, a \<open>list\<close>
  or a \<open>dict\<close> with string keys, the dictionary as an association list read by
  \<open>map_of\<close>.
\<close>

datatype json =
    JNull
  | JBool bool
  | JNum pynum
  | JStr string
  | JArr "json list"
  | JObj "(string \<times> json) list"

text \<open>
  \<open>obj['key']\<close>: a missing key of a dictionary is a \<open>KeyError\<close>; a list or a string
  takes no string index and the other values take no subscript, a \<open>TypeError\<close>.
\<close>

fun subscript_key :: "json \<Rightarrow> string \<Rightarrow> py_exception + json" where
  "subscript_key (JObj kvs) k = (case map_of kvs k of None \<Rightarrow> Inl KeyError | Some v \<Rightarrow> Inr v)"
| "subscript_key obj k = Inl TypeError"

text \<open>
  \<open>obj[0]\<close>: the first element of a list or the first character of a string, an
  \<open>IndexError\<close> when it is empty; a dictionary with string keys has no key \<open>0\<close>.
\<close>

fun subscript_0 :: "json \<Rightarrow> py_exception + json" where
  "subscript_0 (JArr xs) = (case xs of [] \<Rightarrow> Inl IndexError | x # rest \<Rightarrow> Inr x)"
| "subscript_0 (JStr s) = (case s of [] \<Rightarrow> Inl IndexError | c # rest \<Rightarrow> Inr (JStr [c]))"
| "subscript_0 (JObj kvs) = Inl KeyError"
| "subscript_0 obj = Inl TypeError"

text \<open>\<open>obj.get('key')\<close>: only a dictionary has the method.\<close>

fun json_get :: "json \<Rightarrow> string \<Rightarrow> py_exception + json" where
  "json_get (JObj kvs) k = Inr (case map_of kvs k of None \<Rightarrow> JNull | Some v \<Rightarrow> v)"
| "json_get obj k = Inl AttributeError"

text \<open>
  An HTTP response: its status code and its body read as JSON, \<open>None\<close> when the body is
  not JSON. \<open>raise_for_status\<close> raises for every status outside 200--299, as httpx does.
\<close>

record http_response =
  status_code :: nat
  body :: "json option"

definition raise_for_status :: "http_response \<Rightarrow> py_exception + unit" where
  "raise_for_status resp =
     (if 200 \<le> status_code resp \<and> status_code resp < 300 then Inr ()
      else Inl (HTTPStatusError (status_code resp)))"

definition response_json :: "http_response \<Rightarrow> py_exception + json" where
  "response_json resp = (case body resp of None \<Rightarrow> Inl JSONDecodeError | Some d \<Rightarrow> Inr d)"

text \<open>
  The environment of a call. A message is a dictionary of strings. The gateway answers
  the request for a model and a message list: opening the client with its timeout,
  \<open>client.post\<close> and closing the client return a response or raise. The request
  object, when there is one, answers \<open>is_disconnected()\<close> to the call made for a model.
\<close>

type_synonym message = "(string \<times> string) list"
type_synonym gateway = "string \<Rightarrow> message list \<Rightarrow> http_response outcome"
type_synonym request = "string \<Rightarrow> bool outcome"

record response =
  content :: json
  reasoning_details :: json

text \<open>
  \<open>query_model\<close>: the body of its \<open>try\<close>, which reads the response in
  \<open>read_response\<close>, then the function with its \<open>except Exception\<close> clause, which
  prints and returns \<open>None\<close>; \<open>print\<close> is taken to succeed. An exception that is not an
  \<open>Exception\<close> passes the clause. The parameter \<open>model\<close> is \<open>member\<close> here.
\<close>

definition read_response :: "http_response \<Rightarrow> py_exception + response option" where
  "read_response resp =
     py_bind (raise_for_status resp) (\<lambda>u.
     py_bind (response_json resp) (\<lambda>data.
     py_bind (subscript_key data ''choices'') (\<lambda>choices.
     py_bind (subscript_0 choices) (\<lambda>choice.
     py_bind (subscript_key choice ''message'') (\<lambda>msg.
     py_bind (json_get msg ''content'') (\<lambda>c.
     py_bind (json_get msg ''reasoning_details'') (\<lambda>r.
       Inr (Some \<lparr> content = c, reasoning_details = r \<rparr>))))))))"

definition query_model_try ::
  "gateway \<Rightarrow> string \<Rightarrow> message list \<Rightarrow> request option \<Rightarrow> py_exception + response option" where
  "query_model_try post member messages request =
     py_bind (case request of None \<Rightarrow> Inr False | Some r \<Rightarrow> await (r member)) (\<lambda>disconnected.
       if disconnected then Inr None
       else py_bind (await (post member messages)) read_response)"

definition query_model ::
  "gateway \<Rightarrow> string \<Rightarrow> message list \<Rightarrow> request option \<Rightarrow> py_exception + response option" where
  "query_model post member messages request =
     (case query_model_try post member messages request of
        Inl e \<Rightarrow> (if is_Exception e then Inr None else Inl e)
      | Inr r \<Rightarrow> Inr r)"








section \<open>main.py: the streaming endpoint\<close>

text \<open>
  The events of the stream with their payloads; \<open>kind\<close> is the \<open>type\<close> field of the JSON
  object sent. The stage results, the label map and the aggregate rankings are JSON
  values, so \<open>json.dumps\<close> of an event does not raise; the error event carries the
  exception whose text it sends.
\<close>

datatype event =
    Stage1Start
  | Stage1Complete json
  | Stage2Start
  | Stage2Complete json json json
  | Stage3Start
  | Stage3Complete json
  | TitleComplete string
  | Complete
  | Error py_exception

fun kind :: "event \<Rightarrow> string" where
  "kind Stage1Start = ''stage1_start''"
| "kind (Stage1Complete stage1_results) = ''stage1_complete''"
| "kind Stage2Start = ''stage2_start''"
| "kind (Stage2Complete stage2_results label_to_model aggregate_rankings) = ''stage2_complete''"
| "kind Stage3Start = ''stage3_start''"
| "kind (Stage3Complete stage3_result) = ''stage3_complete''"
| "kind (TitleComplete title) = ''title_complete''"
| "kind Complete = ''complete''"
| "kind (Error e) = ''error''"

text \<open>The four places where \<open>event_generator\<close> polls \<open>request.is_disconnected()\<close>.\<close>

datatype checkpoint = BeforeStart | BeforeStage1 | BeforeStage2 | BeforeStage3

text \<open>
  What a run of the generator does, in order: its polls, its prints, its calls of the
  storage and of the council stages, and its yields.
\<close>

datatype action =
    IsDisconnected checkpoint
  | PrintDisconnected checkpoint
  | PrintCancelled
  | AddUserMessage
  | CreateTitleTask
  | CancelTitleTask
  | FormatUserContent
  | Stage1CollectResponses string
  | Stage2CollectRankings string json
  | CalculateAggregateRankings json json
  | Stage3SynthesizeFinal string json json
  | AwaitTitleTask
  | UpdateConversationTitle string
  | AddAssistantMessage json json json json json
  | Yield event

text \<open>
  The environment of one run: whether the conversation had no message, how each poll,
  each storage call and each stage call ends, and what the consumer of the generator
  does at each yield, \<open>None\<close> when it resumes the generator and an exception when it
  throws one into it (\<open>GeneratorExit\<close> when it closes the generator). The arguments of
  \<open>add_user_message\<close> are evaluated within that call. \<open>print\<close> and
  \<open>title_task.cancel()\<close> are taken to succeed.
\<close>

record world =
  is_first_message :: bool
  is_disconnected :: "checkpoint \<Rightarrow> bool outcome"
  add_user_message :: "unit outcome"
  format_user_content :: "string outcome"
  stage1_collect_responses :: "json outcome"
  stage2_collect_rankings :: "(json \<times> json) outcome"
  calculate_aggregate_rankings :: "json outcome"
  stage3_synthesize_final :: "json outcome"
  title_task :: "string outcome"
  update_conversation_title :: "unit outcome"
  add_assistant_message :: "unit outcome"
  resumed :: "event \<Rightarrow> py_exception option"

text \<open>
  A statement sequence of the generator gives the actions it did and how it ended: it
  went on to the next statement with a value, it executed \<open>return\<close>, or it raised.
\<close>

datatype 'a flow = Next 'a | Return | Raise py_exception

type_synonym 'a gen = "action list \<times> 'a flow"

definition gen_bind :: "'a gen \<Rightarrow> ('a \<Rightarrow> 'b gen) \<Rightarrow> 'b gen" where
  "gen_bind m f =
     (case snd m of
        Next v \<Rightarrow> (fst m @ fst (f v), snd (f v))
      | Return \<Rightarrow> (fst m, Return)
      | Raise e \<Rightarrow> (fst m, Raise e))"

definition call :: "action \<Rightarrow> 'a outcome \<Rightarrow> 'a gen" where
  "call a r = ([a], case r of Returned v \<Rightarrow> Next v | Raised e \<Rightarrow> Raise e)"

definition act :: "action \<Rightarrow> unit gen" where
  "act a = ([a], Next ())"

definition yield :: "world \<Rightarrow> event \<Rightarrow> unit gen" where
  "yield w ev = ([Yield ev], case resumed w ev of None \<Rightarrow> Next () | Some e \<Rightarrow> Raise e)"

definition return :: "'a gen" where
  "return = ([], Return)"

definition if_then :: "bool \<Rightarrow> unit gen \<Rightarrow> unit gen" where
  "if_then b m = (if b then m else ([], Next ()))"

text \<open>
  A poll of the disconnection; when it answers \<open>True\<close> the generator prints, cancels the
  title task if there is one, and returns. Before the first poll no title task exists.
\<close>

definition disconnected_return :: "checkpoint \<Rightarrow> bool \<Rightarrow> unit gen" where
  "disconnected_return c has_title_task =
     gen_bind (act (PrintDisconnected c)) (\<lambda>u.
     gen_bind (if_then has_title_task (act CancelTitleTask)) (\<lambda>u. return))"

definition poll :: "world \<Rightarrow> checkpoint \<Rightarrow> bool \<Rightarrow> unit gen" where
  "poll w c has_title_task =
     gen_bind (call (IsDisconnected c) (is_disconnected w c)) (\<lambda>disconnected.
       if disconnected then disconnected_return c has_title_task else ([], Next ()))"

text \<open>
  The body of the \<open>try\<close> of \<open>event_generator\<close>, in the order of the source and cut after
  each stage: the end of the run, Stage 3, Stage 2, and the start with Stage 1.
\<close>

definition finish ::
  "world \<Rightarrow> json \<Rightarrow> json \<Rightarrow> json \<Rightarrow> json \<Rightarrow> json \<Rightarrow> unit gen" where
  "finish w stage1_results stage2_results label_to_model aggregate_rankings stage3_result =
     gen_bind
       (if_then (is_first_message w)
          (gen_bind (call AwaitTitleTask (title_task w)) (\<lambda>title.
           gen_bind (call (UpdateConversationTitle title) (update_conversation_title w)) (\<lambda>u.
             yield w (TitleComplete title))))) (\<lambda>u.
     gen_bind
       (call (AddAssistantMessage stage1_results stage2_results stage3_result
                label_to_model aggregate_rankings)
          (add_assistant_message w)) (\<lambda>u.
       yield w Complete))"

definition stage3 :: "world \<Rightarrow> string \<Rightarrow> json \<Rightarrow> json \<Rightarrow> json \<Rightarrow> json \<Rightarrow> unit gen" where
  "stage3 w user_prompt stage1_results stage2_results label_to_model aggregate_rankings =
     gen_bind (poll w BeforeStage3 (is_first_message w)) (\<lambda>u.
     gen_bind (yield w Stage3Start) (\<lambda>u.
     gen_bind
       (call (Stage3SynthesizeFinal user_prompt stage1_results stage2_results)
          (stage3_synthesize_final w)) (\<lambda>stage3_result.
     gen_bind (yield w (Stage3Complete stage3_result)) (\<lambda>u.
       finish w stage1_results stage2_results label_to_model aggregate_rankings
         stage3_result))))"

definition stage2 :: "world \<Rightarrow> string \<Rightarrow> json \<Rightarrow> unit gen" where
  "stage2 w user_prompt stage1_results =
     gen_bind (poll w BeforeStage2 (is_first_message w)) (\<lambda>u.
     gen_bind (yield w Stage2Start) (\<lambda>u.
     gen_bind
       (call (Stage2CollectRankings user_prompt stage1_results)
          (stage2_collect_rankings w)) (\<lambda>(stage2_results, label_to_model).
     gen_bind
       (call (CalculateAggregateRankings stage2_results label_to_model)
          (calculate_aggregate_rankings w)) (\<lambda>aggregate_rankings.
     gen_bind
       (yield w (Stage2Complete stage2_results label_to_model aggregate_rankings)) (\<lambda>u.
       stage3 w user_prompt stage1_results stage2_results label_to_model
         aggregate_rankings)))))"

definition event_generator_try :: "world \<Rightarrow> unit gen" where
  "event_generator_try w =
     gen_bind (poll w BeforeStart False) (\<lambda>u.
     gen_bind (call AddUserMessage (add_user_message w)) (\<lambda>u.
     gen_bind (if_then (is_first_message w) (act CreateTitleTask)) (\<lambda>u.
     gen_bind (poll w BeforeStage1 (is_first_message w)) (\<lambda>u.
     gen_bind (call FormatUserContent (format_user_content w)) (\<lambda>user_prompt.
     gen_bind (yield w Stage1Start) (\<lambda>u.
     gen_bind
       (call (Stage1CollectResponses user_prompt) (stage1_collect_responses w))
       (\<lambda>stage1_results.
     gen_bind (yield w (Stage1Complete stage1_results)) (\<lambda>u.
       stage2 w user_prompt stage1_results))))))))"

text \<open>
  \<open>event_generator\<close>: the \<open>try\<close> with its two clauses. A \<open>CancelledError\<close> is printed and
  the generator returns; an \<open>Exception\<close> is sent as an error event, after which the
  generator ends; any other exception leaves the generator.
\<close>

definition event_generator :: "world \<Rightarrow> unit gen" where
  "event_generator w =
     (case snd (event_generator_try w) of
        Raise e \<Rightarrow>
          (if e = CancelledError then
             (fst (event_generator_try w) @ [PrintCancelled], Return)
           else if is_Exception e then
             gen_bind (fst (event_generator_try w), Next ()) (\<lambda>u. yield w (Error e))
           else event_generator_try w)
      | other \<Rightarrow> event_generator_try w)"

text \<open>The actions of a run, and the events it sends.\<close>

definition trace :: "world \<Rightarrow> action list" where
  "trace w = fst (event_generator w)"

fun yielded :: "action \<Rightarrow> event list" where
  "yielded (Yield ev) = [ev]"
| "yielded a = []"

definition events :: "action list \<Rightarrow> event list" where
  "events t = concat (map yielded t)"

text \<open>The order of the events of a complete run.\<close>

definition event_order :: "world \<Rightarrow> string list" where
  "event_order w =
     [''stage1_start'', ''stage1_complete'', ''stage2_start'', ''stage2_complete'',
      ''stage3_start'', ''stage3_complete'']
     @ (if is_first_message w then [''title_complete''] else [])
     @ [''complete'']"


text \<open>
  The actions that belong to Stage 2 and to what follows it: the events from
  \<open>stage2_start\<close> on, the calls of Stage 2 and Stage 3, and the writes of the title and
  of the assistant message.
\<close>

fun after_stage1 :: "action \<Rightarrow> bool" where
  "after_stage1 (Yield ev) =
     (kind ev \<in> {''stage2_start'', ''stage2_complete'', ''stage3_start'', ''stage3_complete'',
                 ''title_complete'', ''complete''})"
| "after_stage1 (Stage2CollectRankings user_prompt stage1_results) = True"
| "after_stage1 (CalculateAggregateRankings stage2_results label_to_model) = True"
| "after_stage1 (Stage3SynthesizeFinal user_prompt stage1_results stage2_results) = True"
| "after_stage1 AwaitTitleTask = True"
| "after_stage1 (UpdateConversationTitle title) = True"
| "after_stage1 (AddAssistantMessage s1 s2 s3 l a) = True"
| "after_stage1 a = False"


subsection \<open>Invariants of the statement sequences\<close>

text \<open>No action of a statement sequence has a given property.\<close>

definition none :: "(action \<Rightarrow> bool) \<Rightarrow> 'a gen \<Rightarrow> bool" where
  "none P g = (\<forall>a \<in> set (fst g). \<not> P a)"



text \<open>A trace without a print and without an error event.\<close>

definition calm :: "action list \<Rightarrow> bool" where
  "calm t = (\<forall>a \<in> set t. a \<noteq> PrintCancelled \<and> (\<forall>e. a \<noteq> Yield (Error e)) \<and>
                           (\<forall>c. a \<noteq> PrintDisconnected c))"



text \<open>
  When a statement sequence polls the disconnection before Stage 2, its trace ends with
  the given actions and it returns.
\<close>

definition reach :: "action list \<Rightarrow> 'a gen \<Rightarrow> bool" where
  "reach xs g =
     (IsDisconnected BeforeStage2 \<in> set (fst g) \<longrightarrow> suffix xs (fst g) \<and> snd g = Return)"


section \<open>Rounding to a double\<close>

text \<open>The binade search finds the exponent of its argument.\<close>

lemma binade_from_eq:
  assumes "e0 \<le> e" "e \<le> e0 + int n" "e = e0 + int n \<or> x < 2 powi (e + 1)"
          "e = e0 \<or> 2 powi e \<le> x"
  shows "binade_from x e0 n = e"
  using assms
proof (induction n arbitrary: e0)
  case 0
  then show ?case by simp
next
  case (Suc n)
  show ?case
  proof (cases "e = e0")
    case True
    with Suc.prems show ?thesis by auto
  next
    case False
    with Suc.prems have le: "2 powi e \<le> x" and lt: "e0 + 1 \<le> e" by auto
    have "(2::real) powi (e0 + 1) \<le> 2 powi e"
      using lt by (intro power_int_increasing) auto
    with le have nlt: "\<not> x < 2 powi (e0 + 1)" by linarith
    have "binade_from x (e0 + 1) n = e"
      using Suc.prems lt le by (intro Suc.IH) auto
    with nlt show ?thesis by simp
  qed
qed

lemma binade_eq:
  assumes "- 1022 \<le> e" "e \<le> 1024" "e = 1024 \<or> \<bar>x\<bar> < 2 powi (e + 1)"
          "e = - 1022 \<or> 2 powi e \<le> \<bar>x\<bar>"
  shows "binade x = e"
  unfolding binade_def using assms by (intro binade_from_eq) auto

lemma binade_from_spec:
  "e0 \<le> binade_from x e0 n \<and> binade_from x e0 n \<le> e0 + int n \<and>
   (binade_from x e0 n = e0 + int n \<or> x < 2 powi (binade_from x e0 n + 1)) \<and>
   (binade_from x e0 n = e0 \<or> 2 powi (binade_from x e0 n) \<le> x)"
proof (induction n arbitrary: e0)
  case 0
  then show ?case by simp
next
  case (Suc n)
  show ?case
  proof (cases "x < 2 powi (e0 + 1)")
    case True
    then show ?thesis by simp
  next
    case False
    note IH = Suc.IH[of "e0 + 1"]
    have "binade_from x (e0 + 1) n = e0 + 1 \<Longrightarrow> 2 powi (binade_from x (e0 + 1) n) \<le> x"
      using False by simp
    with IH False show ?thesis by auto
  qed
qed

lemma binade_spec:
  "- 1022 \<le> binade x" "binade x \<le> 1024"
  "binade x = 1024 \<or> \<bar>x\<bar> < 2 powi (binade x + 1)"
  "binade x = - 1022 \<or> 2 powi (binade x) \<le> \<bar>x\<bar>"
  using binade_from_spec[of "- 1022" "\<bar>x\<bar>" 2046] unfolding binade_def by auto

lemma round_half_even_of_int [simp]: "round_half_even (real_of_int k) = k"
  by (simp add: round_half_even_def)

lemma round_half_even_le: "r \<le> real_of_int k \<Longrightarrow> round_half_even r \<le> k"
  unfolding round_half_even_def Let_def
  by (auto split: if_splits) linarith+

lemma round_half_even_ge: "real_of_int k \<le> r \<Longrightarrow> k \<le> round_half_even r"
  unfolding round_half_even_def Let_def
  by (auto split: if_splits) linarith+

lemma to_double_bounded:
  assumes "\<bar>x\<bar> \<le> 2 powi k" "- 1022 \<le> k" "k \<le> 1023"
  shows "\<exists>y. to_double x = Fin y \<and> \<bar>y\<bar> \<le> 2 powi k \<and> (0 \<le> x \<longrightarrow> 0 \<le> y)"
proof -
  define e where "e = binade x"
  define q :: real where "q = 2 powi (e - 52)"
  define m where "m = round_half_even (x / q)"
  have qpos: "0 < q" by (simp add: q_def)
  have ek: "e \<le> k"
  proof (rule ccontr)
    assume "\<not> e \<le> k"
    then have lt: "k + 1 \<le> e" by simp
    with assms have "e \<noteq> - 1022" by simp
    with binade_spec(4)[of x] have "2 powi e \<le> \<bar>x\<bar>" by (simp add: e_def)
    moreover have "(2::real) powi k < 2 powi e"
      using lt by (intro power_int_strict_increasing) auto
    ultimately show False using assms(1) by linarith
  qed
  define N :: int where "N = 2 ^ nat (k - e + 52)"
  have Nq: "real_of_int N * q = 2 powi k"
  proof -
    have "real_of_int N = 2 powi (k - e + 52)"
      using ek by (simp add: N_def power_int_def)
    then have "real_of_int N * q = 2 powi (k - e + 52) * 2 powi (e - 52)" by (simp add: q_def)
    also have "\<dots> = 2 powi ((k - e + 52) + (e - 52))"
      by (subst power_int_add) auto
    finally show ?thesis by simp
  qed
  have "x \<le> real_of_int N * q" "- (real_of_int N * q) \<le> x"
    using assms(1) Nq by linarith+
  then have "x / q \<le> real_of_int N" "real_of_int (- N) \<le> x / q"
    using qpos by (simp_all add: field_simps)
  then have mb: "m \<le> N" "- N \<le> m"
    unfolding m_def by (auto intro: round_half_even_le round_half_even_ge)
  define y where "y = real_of_int m * q"
  have yb: "\<bar>y\<bar> \<le> 2 powi k"
  proof -
    have "\<bar>real_of_int m\<bar> \<le> real_of_int N" using mb by linarith
    then have "\<bar>real_of_int m\<bar> * q \<le> real_of_int N * q"
      using qpos by (intro mult_right_mono) auto
    then show ?thesis using qpos Nq by (simp add: y_def abs_mult)
  qed
  have "(2::real) powi k \<le> 2 powi 1023"
    using assms(3) by (intro power_int_increasing) auto
  also have "\<dots> < (2::real) ^ 1024" by (simp add: power_int_def)
  finally have k1024: "(2::real) powi k < 2 ^ 1024" .
  have fin: "to_double x = Fin y"
    using yb k1024 unfolding to_double_def Let_def y_def m_def q_def e_def
    by (auto simp: abs_le_iff)
  have nonneg: "0 \<le> y" if "0 \<le> x"
  proof -
    from that qpos have "real_of_int 0 \<le> x / q" by simp
    then have "0 \<le> m" unfolding m_def by (rule round_half_even_ge)
    then show ?thesis using qpos by (simp add: y_def)
  qed
  show ?thesis using fin yb nonneg by blast
qed

lemma to_double_zero [simp]: "to_double 0 = Fin 0"
  by (simp add: to_double_def round_half_even_def)




lemma to_double_large:
  assumes "2 ^ 1024 \<le> x"
  shows "to_double x = PosInf"
proof -
  have b: "binade x = 1024"
    using assms by (intro binade_eq) (auto simp: power_int_def)
  have q: "(2::real) powi (1024 - 52) = 2 ^ 972" by (simp add: power_int_def)
  have "real_of_int (2 ^ 52) \<le> x / 2 ^ 972"
    using assms by (simp add: field_simps)
  then have "2 ^ 52 \<le> round_half_even (x / 2 ^ 972)" by (rule round_half_even_ge)
  then have "real_of_int (2 ^ 52) \<le> real_of_int (round_half_even (x / 2 ^ 972))"
    by linarith
  then have "2 ^ 52 * 2 ^ 972 \<le> real_of_int (round_half_even (x / 2 ^ 972)) * 2 ^ 972"
    by (intro mult_right_mono) auto
  then have "(2::real) ^ 1024 \<le> real_of_int (round_half_even (x / 2 ^ 972)) * 2 ^ 972"
    by (simp add: power_add[symmetric])
  then show ?thesis
    unfolding to_double_def Let_def b q by simp
qed

lemma py_bind_Inr [simp]: "py_bind (Inr v) f = f v"
  by (simp add: py_bind_def)

lemma py_bind_Inl [simp]: "py_bind (Inl e) f = Inl e"
  by (simp add: py_bind_def)


lemma to_double_bounded_ex:
  assumes "\<bar>x\<bar> \<le> 2 ^ n" "n \<le> 1023"
  shows "\<exists>y. to_double x = Fin y \<and> \<bar>y\<bar> \<le> 2 ^ n \<and> (0 \<le> x \<longrightarrow> 0 \<le> y)"
proof -
  have "\<bar>x\<bar> \<le> 2 powi (int n)" using assms(1) by simp
  moreover have "- 1022 \<le> int n" "int n \<le> 1023" using assms(2) by simp_all
  ultimately have "\<exists>y. to_double x = Fin y \<and> \<bar>y\<bar> \<le> 2 powi (int n) \<and> (0 \<le> x \<longrightarrow> 0 \<le> y)"
    by (rule to_double_bounded)
  then show ?thesis by simp
qed









section \<open>Token conversion\<close>





section \<open>Cost of one model\<close>

lemma rate_of_unset: "rate_unset r k \<Longrightarrow> rate_of r k = Inr (Fin 0)"
  by (auto simp: rate_unset_def rate_of_def dict_get_def is_zero_def)

lemma rate_of_empty: "rate_of Map.empty k = Inr (Fin 0)"
  by (simp add: rate_of_def dict_get_def is_zero_def)

lemma per_million_bounded:
  assumes "\<bar>i\<bar> \<le> 10 ^ 313"
  shows "\<exists>t. int_truediv i 1000000 = Inr (Fin t)"
proof -
  have "real_of_int \<bar>i\<bar> \<le> real_of_int (10 ^ 313)"
    using assms by (simp only: of_int_le_iff)
  then have "\<bar>real_of_int i\<bar> \<le> 10 ^ 313" by simp
  then have "\<bar>real_of_int i\<bar> / 1000000 \<le> 10 ^ 313 / 1000000"
    by (rule divide_right_mono) simp
  also have "\<dots> \<le> (2::real) ^ 1023" by simp
  finally have "\<bar>real_of_int i / 1000000\<bar> \<le> 2 ^ 1023" by simp
  from to_double_bounded_ex[OF this] obtain t where
    "to_double (real_of_int i / 1000000) = Fin t" by auto
  then show ?thesis by (simp add: int_truediv_def)
qed

lemma mul_zero_rate: "float_mul (Fin t) (Fin 0) = Fin 0"
  by (simp add: float_mul_def)

lemma add_zero_cost: "float_add (Fin 0) (Fin 0) = Fin 0"
  by (simp add: float_add_def)

text \<open>
  C10. For a model identifier that is absent from the pricing table, or whose input and
  output rates are both absent, \<open>None\<close> or zero, and for integer token counts of
  magnitude at most \<open>10\<^sup>3\<^sup>1\<^sup>3\<close>, \<open>estimate_model_cost\<close> returns a result whose input,
  output and total cost are 0 and whose \<open>pricing_missing\<close> flag is set. The bound is
  needed: the division of a token count by \<open>1_000_000\<close> raises \<open>OverflowError\<close> when
  its quotient is beyond the doubles.
\<close>

theorem estimate_model_cost_unpriced:
  assumes "pricing model_id = None \<or>
           (\<exists>r. pricing model_id = Some r \<and> rate_unset r ''input_per_million'' \<and>
                rate_unset r ''output_per_million'')"
      and "\<bar>i\<bar> \<le> 10 ^ 313" and "\<bar>out\<bar> \<le> 10 ^ 313"
  shows "\<exists>e. estimate_model_cost model_id (PyInt i) (PyInt out) pricing = Inr e \<and>
             model e = model_id \<and>
             cost_input e = Fin 0 \<and> cost_output e = Fin 0 \<and> cost_total e = Fin 0 \<and>
             pricing_missing e"
proof -
  define mp where "mp = dict_get pricing model_id Map.empty"
  have r: "rate_of mp ''input_per_million'' = Inr (Fin 0)"
          "rate_of mp ''output_per_million'' = Inr (Fin 0)"
    using assms(1) by (auto simp: mp_def dict_get_def rate_of_empty rate_of_unset)
  obtain t where t: "int_truediv i 1000000 = Inr (Fin t)"
    using per_million_bounded[OF assms(2)] by blast
  obtain u where u: "int_truediv out 1000000 = Inr (Fin u)"
    using per_million_bounded[OF assms(3)] by blast
  show ?thesis
    unfolding estimate_model_cost_def Let_def mp_def[symmetric]
    by (simp add: r t u mul_zero_rate add_zero_cost)
qed

theorem estimate_model_cost_unpriced_witness:
  "\<exists>e. estimate_model_cost ''acme/unknown-model'' (PyInt 1000) (PyInt 900) MODEL_PRICING = Inr e \<and>
       model e = ''acme/unknown-model'' \<and>
       cost_input e = Fin 0 \<and> cost_output e = Fin 0 \<and> cost_total e = Fin 0 \<and>
       pricing_missing e"
proof -
  have "MODEL_PRICING ''acme/unknown-model'' = None"
    by (simp add: MODEL_PRICING_def)
  then show ?thesis
    using estimate_model_cost_unpriced[of MODEL_PRICING "''acme/unknown-model''" 1000 900]
    by simp
qed

text \<open>An unpriced model with \<open>10\<^sup>4\<^sup>0\<^sup>0\<close> input tokens: the call raises.\<close>

theorem estimate_model_cost_overflow:
  "estimate_model_cost ''acme/unknown-model'' (PyInt (10 ^ 400)) (PyInt 0) MODEL_PRICING =
     Inl OverflowError"
proof -
  have n: "MODEL_PRICING ''acme/unknown-model'' = None"
    by (simp add: MODEL_PRICING_def)
  have "to_double (10 ^ 400 / 1000000) = PosInf" by (rule to_double_large) simp
  then have "py_truediv (PyInt (10 ^ 400)) (PyInt 1000000) = Inl OverflowError"
    by (simp add: int_truediv_def)
  then show ?thesis
    unfolding estimate_model_cost_def Let_def
    by (simp add: dict_get_def n rate_of_empty)
qed


section \<open>The gateway call\<close>

lemma py_bind_eq_Inl:
  "py_bind r f = Inl e \<longleftrightarrow> r = Inl e \<or> (\<exists>v. r = Inr v \<and> f v = Inl e)"
  by (cases r) simp_all

lemma subscript_key_Exception: "subscript_key d k = Inl e \<Longrightarrow> is_Exception e"
  by (cases d) (auto simp: is_Exception_def split: option.splits)

lemma subscript_0_Exception: "subscript_0 d = Inl e \<Longrightarrow> is_Exception e"
  by (cases d) (auto simp: is_Exception_def split: list.splits)

lemma json_get_Exception: "json_get d k = Inl e \<Longrightarrow> is_Exception e"
  by (cases d) (auto simp: is_Exception_def)

lemma read_response_Exception: "read_response resp = Inl e \<Longrightarrow> is_Exception e"
  unfolding read_response_def py_bind_eq_Inl
  by (auto simp: raise_for_status_def response_json_def is_Exception_def
           dest: subscript_key_Exception subscript_0_Exception json_get_Exception
           split: if_splits option.splits)

lemma read_response_status:
  "\<not> (200 \<le> status_code resp \<and> status_code resp < 300) \<Longrightarrow>
   read_response resp = Inl (HTTPStatusError (status_code resp))"
  by (auto simp: read_response_def raise_for_status_def)

lemma query_model_try_Inl:
  assumes "query_model_try post member messages request = Inl e" "\<not> is_Exception e"
  shows "(\<exists>r. request = Some r \<and> r member = Raised e) \<or> post member messages = Raised e"
  using assms unfolding query_model_try_def py_bind_eq_Inl
  by (auto simp: await_def dest: read_response_Exception
           split: option.splits outcome.splits if_splits)

lemma query_model_disconnected:
  "request = Some r \<Longrightarrow> r member = Returned True \<Longrightarrow>
   query_model post member messages request = Inr None"
  by (simp add: query_model_def query_model_try_def await_def)

lemma query_model_sent:
  assumes "request = None \<or> (\<exists>r. request = Some r \<and> r member = Returned False)"
  shows "query_model_try post member messages request =
           py_bind (await (post member messages)) read_response"
  using assms by (auto simp: query_model_try_def await_def)

text \<open>
  C2. \<open>query_model\<close> lets no \<open>Exception\<close> reach its caller: when the disconnection of
  the client is detected before sending, on a network error, on a status outside
  200--299 and on a payload that cannot be read it returns \<open>None\<close>, and a payload that
  can be read is returned. It does raise in one way: an exception that is not an
  \<open>Exception\<close>, such as the \<open>CancelledError\<close> of a task cancelled while it awaits the
  poll or the post, passes the \<open>except Exception\<close> clause.
\<close>

theorem query_model_catches_Exception:
  "(\<forall>e. query_model post member messages request = Inl e \<longrightarrow>
        \<not> is_Exception e \<and>
        ((\<exists>r. request = Some r \<and> r member = Raised e) \<or> post member messages = Raised e)) \<and>
   ((\<exists>r. request = Some r \<and> r member = Returned True) \<longrightarrow>
      query_model post member messages request = Inr None) \<and>
   (request = None \<or> (\<exists>r. request = Some r \<and> r member = Returned False) \<longrightarrow>
      (\<forall>e. post member messages = Raised e \<and> is_Exception e \<longrightarrow>
         query_model post member messages request = Inr None) \<and>
      (\<forall>resp. post member messages = Returned resp \<and>
              \<not> (200 \<le> status_code resp \<and> status_code resp < 300) \<longrightarrow>
         query_model post member messages request = Inr None) \<and>
      (\<forall>resp e. post member messages = Returned resp \<and> read_response resp = Inl e \<longrightarrow>
         query_model post member messages request = Inr None) \<and>
      (\<forall>resp r. post member messages = Returned resp \<and> read_response resp = Inr r \<longrightarrow>
         query_model post member messages request = Inr r))"
proof (intro conjI allI impI)
  fix e
  assume a: "query_model post member messages request = Inl e"
  then have t: "query_model_try post member messages request = Inl e"
    and n: "\<not> is_Exception e"
    by (auto simp: query_model_def split: sum.splits if_splits)
  show "\<not> is_Exception e" by (rule n)
  show "(\<exists>r. request = Some r \<and> r member = Raised e) \<or> post member messages = Raised e"
    by (rule query_model_try_Inl[OF t n])
next
  assume "\<exists>r. request = Some r \<and> r member = Returned True"
  then show "query_model post member messages request = Inr None"
    by (auto simp: query_model_disconnected)
next
  fix e
  assume s: "request = None \<or> (\<exists>r. request = Some r \<and> r member = Returned False)"
     and "post member messages = Raised e \<and> is_Exception e"
  then show "query_model post member messages request = Inr None"
    by (simp add: query_model_def query_model_sent[OF s] await_def)
next
  fix resp
  assume s: "request = None \<or> (\<exists>r. request = Some r \<and> r member = Returned False)"
     and "post member messages = Returned resp \<and>
          \<not> (200 \<le> status_code resp \<and> status_code resp < 300)"
  then show "query_model post member messages request = Inr None"
    by (simp add: query_model_def query_model_sent[OF s] await_def read_response_status
          is_Exception_def)
next
  fix resp e
  assume s: "request = None \<or> (\<exists>r. request = Some r \<and> r member = Returned False)"
     and p: "post member messages = Returned resp \<and> read_response resp = Inl e"
  then have "is_Exception e" by (auto dest: read_response_Exception)
  with p show "query_model post member messages request = Inr None"
    by (simp add: query_model_def query_model_sent[OF s] await_def)
next
  fix resp r
  assume s: "request = None \<or> (\<exists>r. request = Some r \<and> r member = Returned False)"
     and p: "post member messages = Returned resp \<and> read_response resp = Inr r"
  then show "query_model post member messages request = Inr r"
    by (simp add: query_model_def query_model_sent[OF s] await_def)
qed

theorem query_model_catches_Exception_witness:
  "query_model (\<lambda>m ms. Returned \<lparr> status_code = 500, body = None \<rparr>) ''openai/gpt-5.1'' [] None
     = Inr None \<and>
   query_model (\<lambda>m ms. Raised ConnectError) ''openai/gpt-5.1'' [] (Some (\<lambda>m. Returned False))
     = Inr None \<and>
   query_model (\<lambda>m ms. Raised ConnectError) ''openai/gpt-5.1'' [] (Some (\<lambda>m. Returned True))
     = Inr None"
  using query_model_catches_Exception
          [of "\<lambda>m ms. Returned \<lparr> status_code = 500, body = None \<rparr>" "''openai/gpt-5.1''" "[]" None]
        query_model_catches_Exception
          [of "\<lambda>m ms. Raised ConnectError" "''openai/gpt-5.1''" "[]" "Some (\<lambda>m. Returned False)"]
        query_model_catches_Exception
          [of "\<lambda>m ms. Raised ConnectError" "''openai/gpt-5.1''" "[]" "Some (\<lambda>m. Returned True)"]
  by (simp add: is_Exception_def)

text \<open>The task is cancelled while it awaits the post: \<open>query_model\<close> raises.\<close>

theorem query_model_cancelled:
  "query_model (\<lambda>m ms. Raised CancelledError) ''openai/gpt-5.1'' [] None = Inl CancelledError"
  by (simp add: query_model_def query_model_try_def await_def is_Exception_def)


section \<open>The parallel dispatch\<close>







section \<open>The streaming generator\<close>

lemma gen_bind_Next [simp]: "gen_bind (t, Next v) f = (t @ fst (f v), snd (f v))"
  by (simp add: gen_bind_def)

lemma gen_bind_Return [simp]: "gen_bind (t, Return) f = (t, Return)"
  by (simp add: gen_bind_def)

lemma gen_bind_Raise [simp]: "gen_bind (t, Raise e) f = (t, Raise e)"
  by (simp add: gen_bind_def)

lemma gen_bind_cases:
  obtains (Next) v where "snd m = Next v" "gen_bind m f = (fst m @ fst (f v), snd (f v))"
        | (Return) "snd m = Return" "gen_bind m f = (fst m, Return)"
        | (Raise) e where "snd m = Raise e" "gen_bind m f = (fst m, Raise e)"
  by (cases "snd m") (auto simp: gen_bind_def)

lemma events_append [simp]: "events (s @ t) = events s @ events t"
  by (simp add: events_def)

lemma events_Nil [simp]: "events [] = []"
  by (simp add: events_def)

lemma events_Cons_Yield [simp]: "events (Yield ev # t) = ev # events t"
  by (simp add: events_def)


text \<open>The four primitives as pairs.\<close>

lemma poll_cases:
  obtains (Go) "is_disconnected w c = Returned False"
               "poll w c b = ([IsDisconnected c], Next ())"
        | (Gone) "is_disconnected w c = Returned True"
               "poll w c b = (IsDisconnected c # PrintDisconnected c #
                                (if b then [CancelTitleTask] else []), Return)"
        | (Raised) e where "is_disconnected w c = Raised e"
               "poll w c b = ([IsDisconnected c], Raise e)"
proof (cases "is_disconnected w c")
  case (Returned d)
  show ?thesis
  proof (cases d)
    case True
    with Returned show ?thesis
      by (intro Gone)
         (simp_all add: poll_def call_def disconnected_return_def act_def if_then_def return_def)
  next
    case False
    with Returned show ?thesis
      by (intro Go) (simp_all add: poll_def call_def)
  qed
next
  case (Raised e)
  then show ?thesis
    by (intro that(3)[of e]) (simp_all add: poll_def call_def)
qed

subsection \<open>Invariant: no action with a given property\<close>

lemma none_bind:
  assumes "none P m" "\<And>v. snd m = Next v \<Longrightarrow> none P (f v)"
  shows "none P (gen_bind m f)"
  by (rule gen_bind_cases[of m f]) (use assms in \<open>auto simp: none_def\<close>)

lemma none_call_bind:
  assumes "\<not> P a" "\<And>v. r = Returned v \<Longrightarrow> none P (f v)"
  shows "none P (gen_bind (call a r) f)"
  using assms by (intro none_bind) (auto simp: none_def call_def split: outcome.splits)

lemma none_yield_bind:
  assumes "\<not> P (Yield ev)" "none P (f ())"
  shows "none P (gen_bind (yield w ev) f)"
  using assms by (intro none_bind) (auto simp: none_def yield_def)

lemma none_yield: "\<not> P (Yield ev) \<Longrightarrow> none P (yield w ev)"
  by (simp add: none_def yield_def)

lemma none_poll_bind:
  assumes "\<not> P (IsDisconnected c)" "\<not> P (PrintDisconnected c)" "\<not> P CancelTitleTask"
          "is_disconnected w c = Returned False \<Longrightarrow> none P (f ())"
  shows "none P (gen_bind (poll w c b) f)"
  by (rule poll_cases[of w c b]) (use assms in \<open>auto simp: none_def\<close>)

lemma none_if_then_bind:
  assumes "b \<Longrightarrow> none P m" "none P (f ())"
  shows "none P (gen_bind (if_then b m) f)"
  using assms by (intro none_bind) (auto simp: if_then_def none_def)

lemma none_act: "\<not> P a \<Longrightarrow> none P (act a)"
  by (simp add: none_def act_def)

lemma none_call: "\<not> P a \<Longrightarrow> none P (call a r)"
  by (simp add: none_def call_def)

lemma none_poll:
  "\<not> P (IsDisconnected c) \<Longrightarrow> \<not> P (PrintDisconnected c) \<Longrightarrow> \<not> P CancelTitleTask \<Longrightarrow>
   none P (poll w c b)"
  by (rule poll_cases[of w c b]) (auto simp: none_def)

lemma none_if_then: "(b \<Longrightarrow> none P m) \<Longrightarrow> none P (if_then b m)"
  by (auto simp: none_def if_then_def)

subsection \<open>Invariant: the events in their order\<close>















lemma no_error_in_order: "''error'' \<notin> set (event_order w)"
  by (simp add: event_order_def)

lemma event_generator_cases:
  obtains (Cancelled) "snd (event_generator_try w) = Raise CancelledError"
            "event_generator w = (fst (event_generator_try w) @ [PrintCancelled], Return)"
        | (Error) e where "snd (event_generator_try w) = Raise e" "is_Exception e"
            "fst (event_generator w) = fst (event_generator_try w) @ [Yield (Error e)]"
        | (Passed) e where "snd (event_generator_try w) = Raise e" "\<not> is_Exception e"
            "e \<noteq> CancelledError" "event_generator w = event_generator_try w"
        | (Ended) "\<forall>e. snd (event_generator_try w) \<noteq> Raise e"
            "event_generator w = event_generator_try w"
proof (cases "snd (event_generator_try w)")
  case (Raise e)
  then show ?thesis
    using that(1) that(2)[of e] that(3)[of e]
    by (cases "e = CancelledError"; cases "is_Exception e")
       (auto simp: event_generator_def yield_def is_Exception_def)
qed (use that(4) in \<open>auto simp: event_generator_def\<close>)


subsection \<open>Invariant: the run halts after a print or an error\<close>

lemma calm_append [simp]: "calm (s @ t) \<longleftrightarrow> calm s \<and> calm t"
  by (auto simp: calm_def)

lemma calm_Nil [simp]: "calm []"
  by (simp add: calm_def)
















subsection \<open>The payload of \<open>stage2_complete\<close>\<close>

lemmas none_intros =
  none_poll_bind none_call_bind none_yield_bind none_if_then_bind none_yield none_act
  none_bind none_call none_if_then





lemma none_event_generator:
  assumes "none P (event_generator_try w)" "\<not> P PrintCancelled" "\<And>e. \<not> P (Yield (Error e))"
  shows "\<forall>a \<in> set (trace w). \<not> P a"
  by (rule event_generator_cases[of w]) (use assms in \<open>auto simp: trace_def none_def\<close>)


subsection \<open>A disconnection detected before Stage 2\<close>

lemma stage2_disconnected:
  assumes "is_disconnected w BeforeStage2 = Returned True"
  shows "stage2 w p s1 =
           (IsDisconnected BeforeStage2 # PrintDisconnected BeforeStage2 #
              (if is_first_message w then [CancelTitleTask] else []), Return)"
  unfolding stage2_def
  by (rule poll_cases[of w BeforeStage2 "is_first_message w"]) (use assms in auto)

lemma before_stage2:
  assumes "is_disconnected w BeforeStage2 = Returned True"
  shows "none after_stage1 (event_generator_try w)"
  unfolding event_generator_try_def
  by (intro none_intros) (simp_all add: stage2_disconnected[OF assms] none_def)

lemma reach_bind:
  assumes "none (\<lambda>a. a = IsDisconnected BeforeStage2) m" "\<And>v. snd m = Next v \<Longrightarrow> reach xs (f v)"
  shows "reach xs (gen_bind m f)"
  by (rule gen_bind_cases[of m f])
     (use assms in \<open>auto simp: reach_def none_def suffix_append\<close>)

lemma reach_try:
  assumes "is_disconnected w BeforeStage2 = Returned True"
  shows "reach (IsDisconnected BeforeStage2 # PrintDisconnected BeforeStage2 #
              (if is_first_message w then [CancelTitleTask] else []))
           (event_generator_try w)"
  unfolding event_generator_try_def
  by (intro reach_bind none_poll none_call none_yield none_if_then none_act)
     (simp_all add: stage2_disconnected[OF assms] reach_def)

lemma trace_reach:
  assumes "is_disconnected w BeforeStage2 = Returned True"
      and "IsDisconnected BeforeStage2 \<in> set (trace w)"
  shows "suffix (IsDisconnected BeforeStage2 # PrintDisconnected BeforeStage2 #
              (if is_first_message w then [CancelTitleTask] else [])) (trace w)"
  by (rule event_generator_cases[of w])
     (use assms(2) reach_try[OF assms(1)] in \<open>auto simp: trace_def reach_def\<close>)

lemmas generator_defs =
  trace_def event_generator_def event_generator_try_def stage2_def stage3_def finish_def
  poll_def disconnected_return_def call_def act_def yield_def return_def if_then_def



text \<open>
  C3. When the poll before Stage 2 answers that the client has disconnected, the run
  sends no \<open>stage2_start\<close> event nor any event after it in the order, calls neither
  Stage 2 nor Stage 3, and writes neither the title nor the assistant message; once
  the poll is reached the run ends with the poll, the print and the cancellation of
  the title task.
\<close>

theorem event_generator_disconnected_before_stage2:
  assumes "is_disconnected w BeforeStage2 = Returned True"
  shows "(\<forall>a \<in> set (trace w). \<not> after_stage1 a) \<and>
         (IsDisconnected BeforeStage2 \<in> set (trace w) \<longrightarrow>
            suffix (IsDisconnected BeforeStage2 # PrintDisconnected BeforeStage2 #
                      (if is_first_message w then [CancelTitleTask] else []))
              (trace w))"
proof
  show "\<forall>a \<in> set (trace w). \<not> after_stage1 a"
    by (rule none_event_generator[OF before_stage2[OF assms]]) simp_all
  show "IsDisconnected BeforeStage2 \<in> set (trace w) \<longrightarrow>
            suffix (IsDisconnected BeforeStage2 # PrintDisconnected BeforeStage2 #
                      (if is_first_message w then [CancelTitleTask] else []))
              (trace w)"
    using trace_reach[OF assms] by blast
qed

theorem event_generator_disconnected_before_stage2_witness:
  "trace
      \<lparr> is_first_message = True, is_disconnected = (\<lambda>c. Returned (c = BeforeStage2)),
        add_user_message = Returned (), format_user_content = Returned ''prompt'',
        stage1_collect_responses = Returned (JStr ''drafts''),
        stage2_collect_rankings = Returned (JStr ''rankings'', JStr ''labels''),
        calculate_aggregate_rankings = Returned (JStr ''aggregate''),
        stage3_synthesize_final = Returned (JStr ''final''),
        title_task = Returned ''title'', update_conversation_title = Returned (),
        add_assistant_message = Returned (), resumed = (\<lambda>ev. None) \<rparr> =
     [IsDisconnected BeforeStart, AddUserMessage, CreateTitleTask, IsDisconnected BeforeStage1,
      FormatUserContent, Yield Stage1Start, Stage1CollectResponses ''prompt'',
      Yield (Stage1Complete (JStr ''drafts'')), IsDisconnected BeforeStage2,
      PrintDisconnected BeforeStage2, CancelTitleTask] \<and>
   filter after_stage1 (trace
      \<lparr> is_first_message = True, is_disconnected = (\<lambda>c. Returned (c = BeforeStage2)),
        add_user_message = Returned (), format_user_content = Returned ''prompt'',
        stage1_collect_responses = Returned (JStr ''drafts''),
        stage2_collect_rankings = Returned (JStr ''rankings'', JStr ''labels''),
        calculate_aggregate_rankings = Returned (JStr ''aggregate''),
        stage3_synthesize_final = Returned (JStr ''final''),
        title_task = Returned ''title'', update_conversation_title = Returned (),
        add_assistant_message = Returned (), resumed = (\<lambda>ev. None) \<rparr>) = []"
proof -
  define W where "W =
      \<lparr> is_first_message = True, is_disconnected = (\<lambda>c. Returned (c = BeforeStage2)),
        add_user_message = Returned (), format_user_content = Returned ''prompt'',
        stage1_collect_responses = Returned (JStr ''drafts''),
        stage2_collect_rankings = Returned (JStr ''rankings'', JStr ''labels''),
        calculate_aggregate_rankings = Returned (JStr ''aggregate''),
        stage3_synthesize_final = Returned (JStr ''final''),
        title_task = Returned ''title'', update_conversation_title = Returned (),
        add_assistant_message = Returned (), resumed = (\<lambda>ev. None) \<rparr>"
  have t: "trace W =
     [IsDisconnected BeforeStart, AddUserMessage, CreateTitleTask, IsDisconnected BeforeStage1,
      FormatUserContent, Yield Stage1Start, Stage1CollectResponses ''prompt'',
      Yield (Stage1Complete (JStr ''drafts'')), IsDisconnected BeforeStage2,
      PrintDisconnected BeforeStage2, CancelTitleTask]"
    by (simp add: W_def generator_defs gen_bind_def)
  have d: "is_disconnected W BeforeStage2 = Returned True" by (simp add: W_def)
  from event_generator_disconnected_before_stage2[OF d]
  have "\<forall>a \<in> set (trace W). \<not> after_stage1 a" by blast
  then have "filter after_stage1 (trace W) = []" by (simp add: filter_empty_conv)
  with t show ?thesis unfolding W_def by blast
qed

end
